theory Spec2Isabelle
  imports Main "HOL-Library.Word" "HOL-Library.Signed_Division"
begin

section \<open>Data model of the channel-safely plugin\<close>

text \<open>
  A tile position is \<^verbatim>\<open>df::coord\<close>: three 16-bit signed integers. Increments
  such as \<^verbatim>\<open>world_pos.z++\<close> are machine additions on \<open>16 word\<close>.
\<close>

record coord =
  cx :: "16 word"
  cy :: "16 word"
  cz :: "16 word"

text \<open>\<^verbatim>\<open>df::tile_dig_designation\<close>, the value of \<^verbatim>\<open>designation.bits.dig\<close>.\<close>

datatype tile_dig_designation = No | Default | UpDownStair | Channel | Ramp | DownStair | UpStair

text \<open>\<^verbatim>\<open>df::job_type\<close>: the two kinds the plugin tests for, and every other kind.\<close>

datatype job_type = Dig | DigChannel | OtherJob nat

record job =
  pos :: coord
  job_type :: job_type

text \<open>
  A block event; only \<^verbatim>\<open>designation_priority\<close> events carry the 16x16
  \<^verbatim>\<open>priority\<close> array the plugin reads.
\<close>

datatype block_square_event = designation_priority "nat \<Rightarrow> nat \<Rightarrow> int" | other_event

text \<open>
  \<^verbatim>\<open>df::map_block\<close>, restricted to the members the plugin touches:
  \<^verbatim>\<open>map_pos\<close>, \<^verbatim>\<open>designation[x][y].bits.dig\<close>,
  \<^verbatim>\<open>occupancy[x][y].bits.dig_marked\<close>, \<^verbatim>\<open>flags.bits.designated\<close> and
  \<^verbatim>\<open>block_events\<close>. The arrays are 16x16; every access checks its indices.
\<close>

record map_block =
  map_pos :: coord
  designation :: "nat \<Rightarrow> nat \<Rightarrow> tile_dig_designation"
  occupancy :: "nat \<Rightarrow> nat \<Rightarrow> bool"
  designated :: bool
  block_events :: "block_square_event list"

text \<open>
  A pointer is an address in a store, or null (\<open>None\<close>). Map blocks are never freed
  while the plugin runs, so every address holds a block; a job is freed by
  \<^verbatim>\<open>Job::removeJob\<close>, so the store of jobs is partial.
\<close>

type_synonym block_ptr = "nat option"
type_synonym job_ptr = "nat option"

text \<open>
  The surrounding simulation: the store of map blocks, the lookups of the \<^verbatim>\<open>Maps\<close>
  module, the store of jobs and the linked list \<^verbatim>\<open>world->jobs.list\<close> of job
  addresses, and the two mode tests every callback makes.
\<close>

record world =
  blocks :: "nat \<Rightarrow> map_block"
  getTileBlock :: "coord \<Rightarrow> block_ptr"
  getBlock :: "nat \<Rightarrow> nat \<Rightarrow> nat \<Rightarrow> block_ptr"
  getSize :: "32 word \<times> 32 word \<times> 32 word"
  job_store :: "nat \<Rightarrow> job option"
  job_list :: "nat list"
  isFortressMode :: bool
  IsValid :: bool

text \<open>
  \<^verbatim>\<open>GroupData::Group\<close> is an ordered map from position to block pointer. It is an
  association list here: \<^verbatim>\<open>emplace\<close> and \<^verbatim>\<open>insert\<close> keep the first entry
  of a key, iteration follows the list.
\<close>

type_synonym Group = "(coord \<times> block_ptr) list"

record GroupData =
  groups :: "Group list"
  groups_map :: "coord \<Rightarrow> nat option"
  free_spots :: "nat list"

text \<open>What the source leaves undefined: each is a result of its own.\<close>

datatype error = NullDeref | DanglingJob | OutOfBounds | SlotOutOfRange | CounterOverflow

section \<open>Group lookup and readiness\<close>

text \<open>
  Modelled from the spec: \<^verbatim>\<open>GroupData::find\<close> is declared in the header
  \<^verbatim>\<open>channel-safely.h\<close>, which is not among the sources. The spec has it look the
  tile up in the group index and give the group of that slot, or no group. A slot id
  outside the arena, which the merge protocol never writes, counts as no group.
\<close>

definition GroupData_find :: "GroupData \<Rightarrow> coord \<Rightarrow> Group option" where
  "GroupData_find gd tile =
     (case groups_map gd tile of
        None \<Rightarrow> None
      | Some i \<Rightarrow> if i < length (groups gd) then Some (groups gd ! i) else None)"

text \<open>The tile one layer above: \<^verbatim>\<open>world_pos.z++\<close>.\<close>

definition coord_above :: "coord \<Rightarrow> coord" where
  "coord_above p = p\<lparr>cz := cz p + 1\<rparr>"

text \<open>
  \<^verbatim>\<open>is_group_ready\<close>: the loop over the members of \<^verbatim>\<open>below_group\<close>, leaving
  with \<open>False\<close> at the first member whose tile above is in a non-empty group.
\<close>

fun is_group_ready :: "GroupData \<Rightarrow> Group \<Rightarrow> bool" where
  "is_group_ready gd [] = True"
| "is_group_ready gd (group_tile # rest) =
     (case GroupData_find gd (coord_above (fst group_tile)) of
        Some g \<Rightarrow> if g \<noteq> [] then False else is_group_ready gd rest
      | None \<Rightarrow> is_group_ready gd rest)"


section \<open>Jobs and their cancellation\<close>

definition is_dig :: "job \<Rightarrow> bool" where
  "is_dig j = (job_type j = Dig)"

definition is_channel :: "job \<Rightarrow> bool" where
  "is_channel j = (job_type j = DigChannel)"

text \<open>The overload \<^verbatim>\<open>is_channel(df::tile_designation&)\<close>.\<close>

definition is_channel_designation :: "tile_dig_designation \<Rightarrow> bool" where
  "is_channel_designation d = (d = Channel)"

text \<open>
  Modelled from the spec: \<^verbatim>\<open>Job::removeJob\<close> belongs to the host's job module,
  which is not among the sources. The spec's job source supports \<open>remove(job)\<close>: the
  job leaves the job list, and its object is gone afterwards.
\<close>

definition removeJob :: "nat \<Rightarrow> world \<Rightarrow> world" where
  "removeJob a w = w\<lparr>job_list := removeAll a (job_list w), job_store := (job_store w)(a := None)\<rparr>"

text \<open>Writing one cell of a 16x16 array.\<close>

definition upd2 :: "(nat \<Rightarrow> nat \<Rightarrow> 'a) \<Rightarrow> nat \<Rightarrow> nat \<Rightarrow> 'a \<Rightarrow> (nat \<Rightarrow> nat \<Rightarrow> 'a)" where
  "upd2 f i k v = f(i := (f i)(k := v))"

text \<open>
  \<^verbatim>\<open>pos.x % 16\<close> on a 16-bit signed coordinate: C++ truncates towards zero, so the
  result of a negative coordinate is negative.
\<close>

definition rem16 :: "16 word \<Rightarrow> int" where
  "rem16 c = sint c smod 16"

text \<open>
  \<^verbatim>\<open>cancelJob\<close>. The indices are \<^verbatim>\<open>uint16_t\<close>: a negative remainder wraps to a
  value beyond the array.
\<close>

definition set_designation :: "nat \<Rightarrow> nat \<Rightarrow> nat \<Rightarrow> tile_dig_designation \<Rightarrow> world \<Rightarrow> world" where
  "set_designation b x y d w =
     w\<lparr>blocks := (blocks w)(b := (blocks w b)\<lparr>designation := upd2 (designation (blocks w b)) x y d\<rparr>)\<rparr>"

definition cancelJob :: "job_ptr \<Rightarrow> world \<Rightarrow> error + world" where
  "cancelJob jp w =
     (case jp of
        None \<Rightarrow> Inr w
      | Some a \<Rightarrow>
          (case job_store w a of
             None \<Rightarrow> Inl DanglingJob
           | Some j \<Rightarrow>
               (case getTileBlock w (pos j) of
                  None \<Rightarrow> Inl NullDeref
                | Some job_block \<Rightarrow>
                    (let x = nat (rem16 (cx (pos j)) mod 65536);
                         y = nat (rem16 (cy (pos j)) mod 65536)
                     in if x < 16 \<and> y < 16
                        then Inr (removeJob a
                               (set_designation job_block x y
                                  (if is_channel j then Channel else Default) w))
                        else Inl OutOfBounds))))"

text \<open>
  The registry \<^verbatim>\<open>DigJobs::jobs\<close>, a map from position to job pointer, as an
  association list; \<^verbatim>\<open>emplace\<close> keeps the entry a key already has.
\<close>

type_synonym DigJobs = "(coord \<times> nat) list"

definition emplace :: "'k \<Rightarrow> 'v \<Rightarrow> ('k \<times> 'v) list \<Rightarrow> ('k \<times> 'v) list" where
  "emplace k v m = (if map_of m k = None then m @ [(k, v)] else m)"

fun DigJobs_read_loop :: "world \<Rightarrow> nat list \<Rightarrow> DigJobs \<Rightarrow> error + DigJobs" where
  "DigJobs_read_loop w [] jobs = Inr jobs"
| "DigJobs_read_loop w (node # rest) jobs =
     (case job_store w node of
        None \<Rightarrow> Inl DanglingJob
      | Some j \<Rightarrow>
          if is_channel j then DigJobs_read_loop w rest (emplace (pos j) node jobs)
          else DigJobs_read_loop w rest jobs)"

definition DigJobs_read :: "world \<Rightarrow> error + DigJobs" where
  "DigJobs_read w = DigJobs_read_loop w (job_list w) []"

definition DigJobs_cancel_job :: "DigJobs \<Rightarrow> coord \<Rightarrow> world \<Rightarrow> error + world" where
  "DigJobs_cancel_job jobs p w =
     (case map_of jobs p of
        None \<Rightarrow> Inr w
      | Some a \<Rightarrow> cancelJob (Some a) w)"

text \<open>
  The earlier variant, \<^verbatim>\<open>ChannelManager::find_dig_jobs\<close> of
  \<^verbatim>\<open>plugins/channel-safely.cpp\<close>: a multimap keyed by the layer \<open>z\<close>, every
  Dig or DigChannel job entered.
\<close>

fun find_dig_jobs_loop :: "world \<Rightarrow> nat list \<Rightarrow> (16 word \<times> nat) list \<Rightarrow> error + (16 word \<times> nat) list" where
  "find_dig_jobs_loop w [] dig_jobs = Inr dig_jobs"
| "find_dig_jobs_loop w (p # rest) dig_jobs =
     (case job_store w p of
        None \<Rightarrow> Inl DanglingJob
      | Some j \<Rightarrow>
          if is_dig j \<or> is_channel j
          then find_dig_jobs_loop w rest (dig_jobs @ [(cz (pos j), p)])
          else find_dig_jobs_loop w rest dig_jobs)"

definition find_dig_jobs :: "world \<Rightarrow> (16 word \<times> nat) list \<Rightarrow> error + (16 word \<times> nat) list" where
  "find_dig_jobs w dig_jobs = find_dig_jobs_loop w (job_list w) dig_jobs"

section \<open>The plugin's state\<close>

text \<open>
  The globals \<^verbatim>\<open>enabled\<close> and \<^verbatim>\<open>manager\<close> (its members \<^verbatim>\<open>jobs\<close> and
  \<^verbatim>\<open>groups\<close>), and the function-local statics of
  \<^verbatim>\<open>ChannelManager::manage_designations\<close> (\<^verbatim>\<open>getMapSize\<close>, \<^verbatim>\<open>t1, t2, zmax\<close>)
  and of \<^verbatim>\<open>GroupData::foreach_block\<close> (\<^verbatim>\<open>getMapSize\<close>, \<^verbatim>\<open>x, y, z\<close>).
\<close>

record plugin =
  enabled :: bool
  manager_jobs :: DigJobs
  manager_groups :: GroupData
  md_getMapSize :: bool
  md_extents :: "32 word \<times> 32 word \<times> 32 word"
  fb_getMapSize :: bool
  fb_extents :: "32 word \<times> 32 word \<times> 32 word"

section \<open>The safety gate\<close>

text \<open>\<^verbatim>\<open>local.x = local.x % 16; local.y = local.y % 16\<close>.\<close>

definition local_of :: "coord \<Rightarrow> coord" where
  "local_of p = p\<lparr>cx := word_of_int (rem16 (cx p)), cy := word_of_int (rem16 (cy p))\<rparr>"

definition set_dig_marked :: "nat \<Rightarrow> nat \<Rightarrow> nat \<Rightarrow> bool \<Rightarrow> world \<Rightarrow> world" where
  "set_dig_marked b lx ly v w =
     w\<lparr>blocks := (blocks w)(b := (blocks w b)\<lparr>occupancy := upd2 (occupancy (blocks w b)) lx ly v\<rparr>)\<rparr>"

definition set_designated :: "nat \<Rightarrow> world \<Rightarrow> world" where
  "set_designated b w = w\<lparr>blocks := (blocks w)(b := (blocks w b)\<lparr>designated := True\<rparr>)\<rparr>"

text \<open>
  The two branches of \<^verbatim>\<open>manage_safety\<close> under its priority test: a ready group
  clears \<^verbatim>\<open>dig_marked\<close> and sets the block's \<^verbatim>\<open>designated\<close> flag; otherwise
  \<^verbatim>\<open>dig_marked\<close> is set and \<^verbatim>\<open>jobs.cancel_job(tile)\<close> runs.
\<close>

definition safety_outcome :: "plugin \<Rightarrow> nat \<Rightarrow> nat \<Rightarrow> nat \<Rightarrow> coord \<Rightarrow> Group \<Rightarrow> world \<Rightarrow> error + world" where
  "safety_outcome pl b lx ly tile g w =
     (if is_group_ready (manager_groups pl) g
      then Inr (set_designated b (set_dig_marked b lx ly False w))
      else DigJobs_cancel_job (manager_jobs pl) tile (set_dig_marked b lx ly True w))"

text \<open>
  The loop of \<^verbatim>\<open>manage_safety\<close> over the events of the block: every
  \<^verbatim>\<open>designation_priority\<close> event whose priority at the tile is below 6000 applies
  the outcome; any other event does nothing.
\<close>

fun manage_safety_events ::
  "plugin \<Rightarrow> nat \<Rightarrow> nat \<Rightarrow> nat \<Rightarrow> coord \<Rightarrow> Group \<Rightarrow> block_square_event list \<Rightarrow> world \<Rightarrow> error + world" where
  "manage_safety_events pl b lx ly tile g [] w = Inr w"
| "manage_safety_events pl b lx ly tile g (other_event # evs) w =
     manage_safety_events pl b lx ly tile g evs w"
| "manage_safety_events pl b lx ly tile g (designation_priority priority # evs) w =
     (if priority lx ly < 6000 then
        (case safety_outcome pl b lx ly tile g w of
           Inl e \<Rightarrow> Inl e
         | Inr w' \<Rightarrow> manage_safety_events pl b lx ly tile g evs w')
      else manage_safety_events pl b lx ly tile g evs w)"

text \<open>
  \<^verbatim>\<open>ChannelManager::manage_safety\<close>. The parameter \<open>tile_above\<close> is the source's;
  the body never reads it.
\<close>

definition manage_safety ::
  "plugin \<Rightarrow> world \<Rightarrow> block_ptr \<Rightarrow> coord \<Rightarrow> coord \<Rightarrow> coord \<Rightarrow> error + world" where
  "manage_safety pl w block local tile tile_above =
     (case GroupData_find (manager_groups pl) tile of
        None \<Rightarrow> Inr w
      | Some g \<Rightarrow>
          (case block of
             None \<Rightarrow> Inl NullDeref
           | Some b \<Rightarrow>
               if 0 \<le> sint (cx local) \<and> sint (cx local) < 16 \<and> 0 \<le> sint (cy local) \<and> sint (cy local) < 16
               then manage_safety_events pl b (nat (sint (cx local))) (nat (sint (cy local))) tile g
                      (block_events (blocks w b)) w
               else Inl OutOfBounds))"

text \<open>\<^verbatim>\<open>onStart\<close>, the handler of a job that has just been started.\<close>

definition onStart :: "plugin \<Rightarrow> world \<Rightarrow> job_ptr \<Rightarrow> error + world" where
  "onStart pl w job_ptr =
     (if enabled pl \<and> isFortressMode w \<and> IsValid w then
        (case job_ptr of
           None \<Rightarrow> Inl NullDeref
         | Some a \<Rightarrow>
             (case job_store w a of
                None \<Rightarrow> Inl DanglingJob
              | Some j \<Rightarrow>
                  if is_dig j \<or> is_channel j
                  then manage_safety pl w (getTileBlock w (pos j)) (local_of (pos j)) (pos j)
                         (coord_above (pos j))
                  else Inr w))
      else Inr w)"

section \<open>The component tracker\<close>

text \<open>\<^verbatim>\<open>getNeighbours\<close>: the eight same-layer neighbours, in the source's order.\<close>

definition getNeighbours :: "coord \<Rightarrow> coord list" where
  "getNeighbours tile =
     [tile\<lparr>cx := cx tile - 1, cy := cy tile - 1\<rparr>,
      tile\<lparr>cy := cy tile - 1\<rparr>,
      tile\<lparr>cx := cx tile + 1, cy := cy tile - 1\<rparr>,
      tile\<lparr>cx := cx tile - 1\<rparr>,
      tile\<lparr>cx := cx tile + 1\<rparr>,
      tile\<lparr>cx := cx tile - 1, cy := cy tile + 1\<rparr>,
      tile\<lparr>cy := cy tile + 1\<rparr>,
      tile\<lparr>cx := cx tile + 1, cy := cy tile + 1\<rparr>]"

text \<open>
  \<^verbatim>\<open>host.insert(group.begin(), group.end())\<close> on ordered maps: every entry of the
  source whose key the destination lacks is entered.
\<close>

definition insert_range :: "('k \<times> 'v) list \<Rightarrow> ('k \<times> 'v) list \<Rightarrow> ('k \<times> 'v) list" where
  "insert_range src dst = foldl (\<lambda>d kv. emplace (fst kv) (snd kv) d) dst src"

text \<open>
  Modelled from the spec: the type of \<^verbatim>\<open>free_spots\<close> is declared in the missing
  header. The spec calls it a set of vacated slot ids; it is an ordered set here, a
  sorted list without repetitions whose \<^verbatim>\<open>begin()\<close> is its head.
\<close>

definition spot_emplace :: "nat \<Rightarrow> nat list \<Rightarrow> nat list" where
  "spot_emplace i fs = (if i \<in> set fs then fs else insort i fs)"

text \<open>
  The loop of \<^verbatim>\<open>GroupData::add\<close> over the neighbours, on the state
  \<open>(groups, free_spots, populated, group_index)\<close>. A neighbour whose slot id is
  beyond the arena makes the source dereference past the end of \<^verbatim>\<open>groups\<close>.
\<close>

fun add_neighbours ::
  "(coord \<Rightarrow> nat option) \<Rightarrow> coord list \<Rightarrow> Group list \<times> nat list \<times> bool \<times> int
     \<Rightarrow> error + (Group list \<times> nat list \<times> bool \<times> int)" where
  "add_neighbours gm [] st = Inr st"
| "add_neighbours gm (neighbour # rest) (gs, fs, populated, group_index) =
     (case gm neighbour of
        None \<Rightarrow> add_neighbours gm rest (gs, fs, populated, group_index)
      | Some idx \<Rightarrow>
          if length gs \<le> idx then Inl SlotOutOfRange
          else if \<not> populated then add_neighbours gm rest (gs, fs, True, int idx)
          else if group_index \<noteq> int idx then
            add_neighbours gm rest
              ((gs[nat group_index := insert_range (gs ! idx) (gs ! nat group_index)])[idx := []],
               spot_emplace idx fs, populated, group_index)
          else add_neighbours gm rest (gs, fs, populated, group_index))"

text \<open>
  \<^verbatim>\<open>GroupData::add\<close>: nothing for an indexed tile; otherwise the merge loop, a
  new group when no neighbour is indexed (a free slot first, else a slot appended),
  the tile entered in the host group, and the index refreshed for every member of
  the host.
\<close>

definition GroupData_add :: "coord \<Rightarrow> block_ptr \<Rightarrow> GroupData \<Rightarrow> error + GroupData" where
  "GroupData_add world_pos block gd =
     (if groups_map gd world_pos = None then
        (case add_neighbours (groups_map gd) (getNeighbours world_pos)
                (groups gd, free_spots gd, False, - 1) of
           Inl e \<Rightarrow> Inl e
         | Inr (gs, fs, populated, group_index) \<Rightarrow>
             (let (gs1, fs1, gi) =
                    (if \<not> populated then
                       (if fs \<noteq> [] then (gs, tl fs, int (hd fs))
                        else (gs @ [[]], fs, int (length (gs @ [[]])) - 1))
                     else (gs, fs, group_index))
              in if 0 \<le> gi \<and> nat gi < length gs1 then
                   (let gs2 = gs1[nat gi := emplace world_pos block (gs1 ! nat gi)]
                    in Inr \<lparr>groups = gs2,
                            groups_map = fold (\<lambda>pair m. m(fst pair \<mapsto> nat gi)) (gs2 ! nat gi) (groups_map gd),
                            free_spots = fs1\<rparr>)
                 else Inl SlotOutOfRange))
      else Inr gd)"

text \<open>Sequencing a loop body over a list, stopping at the first error.\<close>

fun for_each :: "('a \<Rightarrow> 's \<Rightarrow> error + 's) \<Rightarrow> 'a list \<Rightarrow> 's \<Rightarrow> error + 's" where
  "for_each f [] s = Inr s"
| "for_each f (a # rest) s = (case f a s of Inl e \<Rightarrow> Inl e | Inr s' \<Rightarrow> for_each f rest s')"

text \<open>
  The position \<^verbatim>\<open>foreach_tile\<close> computes: \<^verbatim>\<open>map_pos\<close> plus the local
  coordinates, on layer \<open>z\<close>; the additions and the assignment are 16-bit.
\<close>

definition tile_pos :: "map_block \<Rightarrow> nat \<Rightarrow> nat \<Rightarrow> nat \<Rightarrow> coord" where
  "tile_pos blk local_x local_y z =
     (map_pos blk)\<lparr>cx := cx (map_pos blk) + of_nat local_x,
                    cy := cy (map_pos blk) + of_nat local_y,
                    cz := of_nat z\<rparr>"

definition foreach_tile :: "world \<Rightarrow> nat \<Rightarrow> nat \<Rightarrow> GroupData \<Rightarrow> error + GroupData" where
  "foreach_tile w block z gd =
     for_each (\<lambda>local_x.
       for_each (\<lambda>local_y gd'.
         if is_channel_designation (designation (blocks w block) local_x local_y)
         then GroupData_add (tile_pos (blocks w block) local_x local_y z) (Some block) gd'
         else Inr gd') [0..<16]) [0..<16] gd"

text \<open>
  The layers \<^verbatim>\<open>for (int iz = z - 1; iz >= 0; --iz)\<close> visits: \<open>z - 1\<close> is
  computed in \<^verbatim>\<open>uint32_t\<close> and read as an \<^verbatim>\<open>int\<close>.
\<close>

definition layers :: "32 word \<Rightarrow> nat list" where
  "layers z = (if 0 \<le> sint (z - 1) then rev [0..<nat (sint (z - 1)) + 1] else [])"

text \<open>
  \<^verbatim>\<open>GroupData::foreach_block\<close>. The extents are static: they are asked of
  \<^verbatim>\<open>Maps::getSize\<close> when the flag is still clear, and kept from then on. The
  counters \<open>ix\<close>, \<open>iy\<close> are \<^verbatim>\<open>int\<close>s compared with \<^verbatim>\<open>uint32_t\<close>
  extents: an extent of \<open>2^31\<close> or more overflows the counter.
\<close>

definition foreach_block :: "world \<Rightarrow> plugin \<Rightarrow> error + plugin" where
  "foreach_block w pl =
     (let pl1 = (if \<not> fb_getMapSize pl then pl\<lparr>fb_getMapSize := True, fb_extents := getSize w\<rparr> else pl);
          (x, y, z) = fb_extents pl1
      in if 2 ^ 31 \<le> unat x \<or> (0 < unat x \<and> 2 ^ 31 \<le> unat y) then Inl CounterOverflow
         else
           (case for_each (\<lambda>ix.
                   for_each (\<lambda>iy.
                     for_each (\<lambda>iz gd.
                       case getBlock w ix iy iz of
                         None \<Rightarrow> Inr gd
                       | Some block \<Rightarrow> foreach_tile w block iz gd) (layers z)) [0..<unat y])
                   [0..<unat x] (manager_groups pl1) of
              Inl e \<Rightarrow> Inl e
            | Inr gd \<Rightarrow> Inr (pl1\<lparr>manager_groups := gd\<rparr>)))"

text \<open>
  \<^verbatim>\<open>GroupData::read\<close>: the scan of the blocks, the rebuild of the registry, and
  an insert for every channel job of the registry. It does not clear the tracker.
\<close>

definition GroupData_read :: "world \<Rightarrow> plugin \<Rightarrow> error + plugin" where
  "GroupData_read w pl =
     (case foreach_block w pl of
        Inl e \<Rightarrow> Inl e
      | Inr pl1 \<Rightarrow>
          (case DigJobs_read w of
             Inl e \<Rightarrow> Inl e
           | Inr jobs \<Rightarrow>
               (case for_each (\<lambda>map_entry gd.
                       case job_store w (snd map_entry) of
                         None \<Rightarrow> Inl DanglingJob
                       | Some j \<Rightarrow>
                           if is_channel j
                           then GroupData_add (fst map_entry) (getTileBlock w (pos j)) gd
                           else Inr gd) jobs (manager_groups pl1) of
                  Inl e \<Rightarrow> Inl e
                | Inr gd \<Rightarrow> Inr (pl1\<lparr>manager_jobs := jobs, manager_groups := gd\<rparr>))))"

text \<open>
  Modelled from the spec: \<^verbatim>\<open>GroupData::clear\<close> is declared in the missing header.
  The spec's rebuild clears all state: no group, no index entry, no free slot.
\<close>

definition GroupData_clear :: GroupData where
  "GroupData_clear = \<lparr>groups = [], groups_map = (\<lambda>p. None), free_spots = []\<rparr>"

section \<open>The full rescan\<close>

text \<open>
  Modelled from the spec: \<^verbatim>\<open>ChannelManager::build_groups\<close> is declared in the
  missing header. The spec's full rescan rebuilds the component tracker and the
  registry, and its rebuild clears all state before it scans.
\<close>

definition build_groups :: "world \<Rightarrow> plugin \<Rightarrow> error + plugin" where
  "build_groups w pl = GroupData_read w (pl\<lparr>manager_groups := GroupData_clear\<rparr>)"

text \<open>
  The body of the loops of \<^verbatim>\<open>manage_designations\<close> for one member tile. The test
  \<^verbatim>\<open>world_pos.z < zmax - 1\<close> compares an \<^verbatim>\<open>int\<close> with a \<^verbatim>\<open>uint32_t\<close>, so
  both sides are read as unsigned 32-bit values. On the top-most layer the tile's
  \<^verbatim>\<open>dig_marked\<close> is cleared through the block pointer the group stores.
\<close>

definition manage_tile :: "plugin \<Rightarrow> 32 word \<Rightarrow> coord \<times> block_ptr \<Rightarrow> world \<Rightarrow> error + world" where
  "manage_tile pl zmax tile w =
     (let world_pos = fst tile; block = snd tile; local = local_of world_pos
      in if (scast (cz world_pos) :: 32 word) < zmax - 1
         then manage_safety pl w block local world_pos (coord_above world_pos)
         else (case block of
                 None \<Rightarrow> Inl NullDeref
               | Some b \<Rightarrow>
                   if 0 \<le> sint (cx local) \<and> sint (cx local) < 16
                      \<and> 0 \<le> sint (cy local) \<and> sint (cy local) < 16
                   then Inr (set_dig_marked b (nat (sint (cx local))) (nat (sint (cy local))) False w)
                   else Inl OutOfBounds))"

text \<open>
  \<^verbatim>\<open>ChannelManager::manage_designations\<close>. Its extents are static, asked of
  \<^verbatim>\<open>Maps::getSize\<close> while the flag is clear. The loops visit every member of
  every group of the arena (the iteration of \<^verbatim>\<open>GroupData\<close> is declared in the
  missing header; the spec has the rescan evaluate every member tile of every group).
\<close>

definition manage_designations :: "world \<Rightarrow> plugin \<Rightarrow> error + plugin \<times> world" where
  "manage_designations w pl =
     (if isFortressMode w \<and> IsValid w then
        (let pl1 = (if \<not> md_getMapSize pl
                    then pl\<lparr>md_getMapSize := True, md_extents := getSize w\<rparr> else pl);
             zmax = snd (snd (md_extents pl1))
         in case build_groups w pl1 of
              Inl e \<Rightarrow> Inl e
            | Inr pl2 \<Rightarrow>
                (case for_each (\<lambda>group. for_each (manage_tile pl2 zmax) group)
                        (groups (manager_groups pl2)) w of
                   Inl e \<Rightarrow> Inl e
                 | Inr w' \<Rightarrow> Inr (pl2, w')))
      else Inr (pl, w))"

text \<open>The same world with other extents reported by \<^verbatim>\<open>Maps::getSize\<close>.\<close>

definition with_size :: "32 word \<times> 32 word \<times> 32 word \<Rightarrow> world \<Rightarrow> world" where
  "with_size s w = w\<lparr>getSize := s\<rparr>"

section \<open>Notions the properties are stated with\<close>

text \<open>The member tiles of a group, and the number of tiles all groups hold.\<close>

definition keys :: "('k \<times> 'v) list \<Rightarrow> 'k set" where
  "keys g = fst ` set g"




text \<open>
  The slots the neighbours of a tile are indexed to, and the first of them in the
  order of the neighbours.
\<close>

definition slots :: "(coord \<Rightarrow> nat option) \<Rightarrow> coord list \<Rightarrow> nat set" where
  "slots gm ns = {i. \<exists>n \<in> set ns. gm n = Some i}"




text \<open>
  An event lets the gate act on the tile at \<open>(lx, ly)\<close> when it is a
  \<^verbatim>\<open>designation_priority\<close> event whose priority there is below 6000.
\<close>

definition eligible :: "nat \<Rightarrow> nat \<Rightarrow> block_square_event \<Rightarrow> bool" where
  "eligible lx ly ev = (case ev of designation_priority priority \<Rightarrow> priority lx ly < 6000 | other_event \<Rightarrow> False)"

text \<open>
  A channel job of the job list on a tile: the job at the address is live, of kind
  \<^verbatim>\<open>DigChannel\<close>, and positioned on the tile.
\<close>

definition channel_job_at :: "world \<Rightarrow> coord \<Rightarrow> nat \<Rightarrow> bool" where
  "channel_job_at w p a = (case job_store w a of None \<Rightarrow> False | Some j \<Rightarrow> job_type j = DigChannel \<and> pos j = p)"

section \<open>Example states\<close>

text \<open>
  Three tracked tiles: \<open>A = (0,0,5)\<close> with \<open>B = (0,0,6)\<close> right above it, each in a
  group of its own, and \<open>D = (16,0,5)\<close> in a block without a priority overlay. A
  channel job, at address 7, is at work on \<open>A\<close>.
\<close>

definition ex_A :: coord where "ex_A = \<lparr>cx = 0, cy = 0, cz = 5\<rparr>"
definition ex_B :: coord where "ex_B = \<lparr>cx = 0, cy = 0, cz = 6\<rparr>"
definition ex_D :: coord where "ex_D = \<lparr>cx = 16, cy = 0, cz = 5\<rparr>"

definition ex_block0 :: map_block where
  "ex_block0 = \<lparr>map_pos = ex_A, designation = (\<lambda>x y. No), occupancy = (\<lambda>x y. False),
     designated = False, block_events = [other_event, designation_priority (\<lambda>x y. 4000)]\<rparr>"

definition ex_block1 :: map_block where
  "ex_block1 = \<lparr>map_pos = ex_B, designation = (\<lambda>x y. if x = 0 \<and> y = 0 then Channel else No),
     occupancy = (\<lambda>x y. True), designated = False,
     block_events = [designation_priority (\<lambda>x y. 4000)]\<rparr>"

definition ex_block2 :: map_block where
  "ex_block2 = \<lparr>map_pos = ex_D, designation = (\<lambda>x y. if x = 0 \<and> y = 0 then Channel else No),
     occupancy = (\<lambda>x y. True), designated = False, block_events = [other_event]\<rparr>"

definition ex_world :: world where
  "ex_world = \<lparr>blocks = (\<lambda>a. if a = 0 then ex_block0 else if a = 1 then ex_block1 else ex_block2),
     getTileBlock = (\<lambda>p. if p = ex_A then Some 0 else if p = ex_B then Some 1
                          else if p = ex_D then Some 2 else None),
     getBlock = (\<lambda>ix iy iz. if ix = 0 \<and> iy = 0 \<and> iz = 5 then Some 0
                          else if ix = 0 \<and> iy = 0 \<and> iz = 6 then Some 1
                          else if ix = 1 \<and> iy = 0 \<and> iz = 5 then Some 2 else None),
     getSize = (2, 1, 7),
     job_store = (\<lambda>a. if a = 7 then Some \<lparr>pos = ex_A, job_type = DigChannel\<rparr> else None),
     job_list = [7], isFortressMode = True, IsValid = True\<rparr>"

definition ex_groups :: GroupData where
  "ex_groups = \<lparr>groups = [[(ex_A, Some 0)], [(ex_B, Some 1)], [(ex_D, Some 2)]],
     groups_map = (\<lambda>p. if p = ex_A then Some 0 else if p = ex_B then Some 1
                        else if p = ex_D then Some 2 else None),
     free_spots = []\<rparr>"

definition ex_plugin :: plugin where
  "ex_plugin = \<lparr>enabled = True, manager_jobs = [(ex_A, 7)], manager_groups = ex_groups,
     md_getMapSize = False, md_extents = (0, 0, 0), fb_getMapSize = False, fb_extents = (0, 0, 0)\<rparr>"

text \<open>
  A job list of five jobs: a plain dig job on \<open>E = (17,35,5)\<close>, the channel job on
  \<open>A\<close>, and on \<open>F = (18,5,5)\<close> a job of another kind and two channel jobs. Both
  \<open>E\<close> and \<open>F\<close> lie in the block of \<open>D\<close>, at the cells \<open>(1,3)\<close> and
  \<open>(2,5)\<close>.
\<close>

definition ex_E :: coord where "ex_E = \<lparr>cx = 17, cy = 35, cz = 5\<rparr>"
definition ex_F :: coord where "ex_F = \<lparr>cx = 18, cy = 5, cz = 5\<rparr>"

definition ex_jobs_world :: world where
  "ex_jobs_world = ex_world\<lparr>
     getTileBlock := (\<lambda>p. if p = ex_E \<or> p = ex_F then Some 2 else getTileBlock ex_world p),
     job_store := (\<lambda>a. if a = 4 then Some \<lparr>pos = ex_E, job_type = Dig\<rparr>
                        else if a = 7 then Some \<lparr>pos = ex_A, job_type = DigChannel\<rparr>
                        else if a = 8 then Some \<lparr>pos = ex_F, job_type = OtherJob 0\<rparr>
                        else if a = 9 then Some \<lparr>pos = ex_F, job_type = DigChannel\<rparr>
                        else if a = 10 then Some \<lparr>pos = ex_F, job_type = DigChannel\<rparr>
                        else None),
     job_list := [4, 7, 8, 9, 10]\<rparr>"





text \<open>A job list holding one plain dig job, at address 4.\<close>

definition ex_dig_world :: world where
  "ex_dig_world = ex_world\<lparr>
     job_store := (\<lambda>a. if a = 4 then Some \<lparr>pos = \<lparr>cx = 1, cy = 2, cz = 3\<rparr>, job_type = Dig\<rparr> else None),
     job_list := [4]\<rparr>"



text \<open>
  A plugin that has never scanned, and one whose static extents \<open>(2, 1, 6)\<close> were
  taken from an earlier map one layer lower than the example world.
\<close>

definition ex_fresh_plugin :: plugin where
  "ex_fresh_plugin = \<lparr>enabled = True, manager_jobs = [], manager_groups = GroupData_clear,
     md_getMapSize = False, md_extents = (0, 0, 0), fb_getMapSize = False, fb_extents = (0, 0, 0)\<rparr>"

definition ex_stale_plugin :: plugin where
  "ex_stale_plugin = \<lparr>enabled = True, manager_jobs = [], manager_groups = GroupData_clear,
     md_getMapSize = True, md_extents = (2, 1, 6), fb_getMapSize = True, fb_extents = (2, 1, 6)\<rparr>"

section \<open>Readiness (C1)\<close>

text \<open>
  C1. \<^verbatim>\<open>is_group_ready\<close> answers true exactly when, for every member tile of the
  group, the tile one layer above maps to no group or to an empty group; so it
  answers false as soon as one member's tile above is in a non-empty group. The layer
  above is the 16-bit increment of \<open>z\<close>, as in the source.
\<close>

theorem is_group_ready_iff:
  "is_group_ready gd g \<longleftrightarrow>
     (\<forall>t \<in> fst ` set g.
        GroupData_find gd (coord_above t) = None \<or> GroupData_find gd (coord_above t) = Some [])"
  by (induction g) (auto split: option.splits)

theorem is_group_ready_iff_witness:
  "is_group_ready
      \<lparr>groups = [[(\<lparr>cx = 0, cy = 0, cz = 5\<rparr>, None)], [(\<lparr>cx = 0, cy = 0, cz = 6\<rparr>, None)], []],
       groups_map = (\<lambda>p. if p = \<lparr>cx = 0, cy = 0, cz = 5\<rparr> then Some 0
                          else if p = \<lparr>cx = 0, cy = 0, cz = 6\<rparr> then Some 1
                          else if p = \<lparr>cx = 0, cy = 0, cz = 7\<rparr> then Some 2 else None),
       free_spots = [2]\<rparr>
      [(\<lparr>cx = 0, cy = 0, cz = 6\<rparr>, None)]
   \<and> \<not> is_group_ready
      \<lparr>groups = [[(\<lparr>cx = 0, cy = 0, cz = 5\<rparr>, None)], [(\<lparr>cx = 0, cy = 0, cz = 6\<rparr>, None)], []],
       groups_map = (\<lambda>p. if p = \<lparr>cx = 0, cy = 0, cz = 5\<rparr> then Some 0
                          else if p = \<lparr>cx = 0, cy = 0, cz = 6\<rparr> then Some 1
                          else if p = \<lparr>cx = 0, cy = 0, cz = 7\<rparr> then Some 2 else None),
       free_spots = [2]\<rparr>
      [(\<lparr>cx = 0, cy = 0, cz = 5\<rparr>, None)]"
  unfolding is_group_ready_iff by (simp add: GroupData_find_def coord_above_def)

section \<open>Evaluation of the example states\<close>

lemmas ex_defs = ex_plugin_def ex_groups_def ex_A_def ex_B_def ex_D_def ex_world_def
  ex_block0_def ex_block1_def ex_block2_def

lemmas op_defs = manage_safety_def GroupData_find_def local_of_def rem16_def safety_outcome_def
  coord_above_def DigJobs_cancel_job_def cancelJob_def is_channel_def is_dig_def removeJob_def
  set_designation_def set_dig_marked_def set_designated_def upd2_def onStart_def

lemmas jobs_defs = ex_jobs_world_def ex_E_def ex_F_def


section \<open>Cancelling a job (C8)\<close>

lemma rem16_index: "0 \<le> rem16 c \<Longrightarrow> nat (rem16 c mod 65536) < 16 \<and> nat (rem16 c mod 65536) = nat (rem16 c)"
proof -
  assume a: "0 \<le> rem16 c"
  have "sint c smod 16 \<in> {- \<bar>16\<bar> + 1..\<bar>16\<bar> - 1}"
    by (rule smod_int_range) simp
  then show ?thesis using a by (simp add: rem16_def)
qed

lemma cancelJob_live:
  assumes "job_store w a = Some j" "getTileBlock w (pos j) = Some bj"
    "0 \<le> rem16 (cx (pos j))" "0 \<le> rem16 (cy (pos j))"
  shows "cancelJob (Some a) w =
     Inr (removeJob a (set_designation bj (nat (rem16 (cx (pos j)))) (nat (rem16 (cy (pos j))))
            (if is_channel j then Channel else Default) w))"
  using assms rem16_index [of "cx (pos j)"] rem16_index [of "cy (pos j)"]
  by (simp add: cancelJob_def Let_def)

lemma rem16_nonneg: "0 \<le> sint c \<Longrightarrow> rem16 c = sint c mod 16"
  by (simp add: rem16_def signed_modulo_int_def sgn_if)

lemma cancelJob_cell:
  assumes "job_store w a = Some j" "getTileBlock w (pos j) = Some bj"
    "0 \<le> sint (cx (pos j))" "0 \<le> sint (cy (pos j))"
  shows "cancelJob (Some a) w =
     Inr (removeJob a (set_designation bj (nat (sint (cx (pos j)) mod 16)) (nat (sint (cy (pos j)) mod 16))
            (if job_type j = DigChannel then Channel else Default) w))"
proof -
  have r: "rem16 (cx (pos j)) = sint (cx (pos j)) mod 16" "rem16 (cy (pos j)) = sint (cy (pos j)) mod 16"
    using assms(3,4) by (simp_all add: rem16_nonneg)
  have "0 \<le> rem16 (cx (pos j))" "0 \<le> rem16 (cy (pos j))"
    unfolding r by simp_all
  from cancelJob_live [OF assms(1,2) this] show ?thesis
    unfolding r by (simp add: is_channel_def)
qed

text \<open>
  C8. Cancelling is a no-op for a null job and for a position the registry does not
  hold; a registry hit cancels the job it holds. Cancelling a live job on a tile with
  non-negative \<open>x\<close> and \<open>y\<close> that has a block writes the request state of the
  job's kind into the designation of the job's tile, the cell
  \<open>(x mod 16, y mod 16)\<close> of that block: \<open>Channel\<close> for a \<^verbatim>\<open>DigChannel\<close> job,
  \<open>Default\<close>, the plain dig request, for every other kind, so never \<open>No\<close>. No
  other designation changes, and the job, and only it, leaves the job list.
\<close>

theorem cancel_resets_and_removes:
  "cancelJob None w = Inr w
   \<and> (map_of jobs p = None \<longrightarrow> DigJobs_cancel_job jobs p w = Inr w)
   \<and> (map_of jobs p = Some a \<longrightarrow> DigJobs_cancel_job jobs p w = cancelJob (Some a) w)
   \<and> (job_store w a = Some j \<and> getTileBlock w (pos j) = Some b
        \<and> 0 \<le> sint (cx (pos j)) \<and> 0 \<le> sint (cy (pos j)) \<longrightarrow>
       (\<exists>w'. cancelJob (Some a) w = Inr w'
          \<and> (job_type j = DigChannel \<longrightarrow>
                designation (blocks w' b) (nat (sint (cx (pos j)) mod 16)) (nat (sint (cy (pos j)) mod 16))
                  = Channel)
          \<and> (job_type j \<noteq> DigChannel \<longrightarrow>
                designation (blocks w' b) (nat (sint (cx (pos j)) mod 16)) (nat (sint (cy (pos j)) mod 16))
                  = Default)
          \<and> (\<forall>c x y. (c, x, y) \<noteq> (b, nat (sint (cx (pos j)) mod 16), nat (sint (cy (pos j)) mod 16)) \<longrightarrow>
                designation (blocks w' c) x y = designation (blocks w c) x y)
          \<and> job_list w' = removeAll a (job_list w)
          \<and> a \<notin> set (job_list w')))"
proof (intro conjI impI)
  show "cancelJob None w = Inr w" by (simp add: cancelJob_def)
next
  assume "map_of jobs p = None"
  then show "DigJobs_cancel_job jobs p w = Inr w" by (simp add: DigJobs_cancel_job_def)
next
  assume "map_of jobs p = Some a"
  then show "DigJobs_cancel_job jobs p w = cancelJob (Some a) w" by (simp add: DigJobs_cancel_job_def)
next
  assume h: "job_store w a = Some j \<and> getTileBlock w (pos j) = Some b
        \<and> 0 \<le> sint (cx (pos j)) \<and> 0 \<le> sint (cy (pos j))"
  then have "cancelJob (Some a) w =
     Inr (removeJob a (set_designation b (nat (sint (cx (pos j)) mod 16)) (nat (sint (cy (pos j)) mod 16))
            (if job_type j = DigChannel then Channel else Default) w))"
    by (simp add: cancelJob_cell)
  then show "\<exists>w'. cancelJob (Some a) w = Inr w'
          \<and> (job_type j = DigChannel \<longrightarrow>
                designation (blocks w' b) (nat (sint (cx (pos j)) mod 16)) (nat (sint (cy (pos j)) mod 16))
                  = Channel)
          \<and> (job_type j \<noteq> DigChannel \<longrightarrow>
                designation (blocks w' b) (nat (sint (cx (pos j)) mod 16)) (nat (sint (cy (pos j)) mod 16))
                  = Default)
          \<and> (\<forall>c x y. (c, x, y) \<noteq> (b, nat (sint (cx (pos j)) mod 16), nat (sint (cy (pos j)) mod 16)) \<longrightarrow>
                designation (blocks w' c) x y = designation (blocks w c) x y)
          \<and> job_list w' = removeAll a (job_list w)
          \<and> a \<notin> set (job_list w')"
    by (auto simp: removeJob_def set_designation_def upd2_def)
qed

theorem cancel_resets_and_removes_witness:
  "cancelJob None ex_jobs_world = Inr ex_jobs_world
   \<and> map_of [(ex_A, 7::nat)] ex_D = None
   \<and> DigJobs_cancel_job [(ex_A, 7)] ex_D ex_jobs_world = Inr ex_jobs_world
   \<and> job_store ex_jobs_world 4 = Some \<lparr>pos = ex_E, job_type = Dig\<rparr>
   \<and> designation (blocks ex_jobs_world 2) 1 3 = No
   \<and> (\<exists>w'. cancelJob (Some 4) ex_jobs_world = Inr w'
         \<and> designation (blocks w' 2) 1 3 = Default
         \<and> designation (blocks w' 2) 0 0 = Channel
         \<and> designation (blocks w' 0) 1 3 = No
         \<and> job_list w' = [7, 8, 9, 10])
   \<and> job_store ex_jobs_world 9 = Some \<lparr>pos = ex_F, job_type = DigChannel\<rparr>
   \<and> designation (blocks ex_jobs_world 2) 2 5 = No
   \<and> (\<exists>w'. cancelJob (Some 9) ex_jobs_world = Inr w'
         \<and> designation (blocks w' 2) 2 5 = Channel
         \<and> job_list w' = [4, 7, 8, 10])"
  using cancel_resets_and_removes [where w = ex_jobs_world and jobs = "[(ex_A, 7)]" and p = ex_D
      and a = 4 and j = "\<lparr>pos = ex_E, job_type = Dig\<rparr>" and b = 2]
    cancel_resets_and_removes [where w = ex_jobs_world and jobs = "[(ex_A, 7)]" and p = ex_D
      and a = 9 and j = "\<lparr>pos = ex_F, job_type = DigChannel\<rparr>" and b = 2]
  by (auto simp: ex_defs jobs_defs)

section \<open>The event loop of the safety gate\<close>

lemma events_none:
  "\<forall>ev \<in> set evs. \<not> eligible lx ly ev \<Longrightarrow> manage_safety_events pl b lx ly tile g evs w = Inr w"
  by (induction evs) (auto simp: eligible_def split: block_square_event.splits)






section \<open>Tiles without a priority overlay (C2)\<close>

text \<open>
  C2, as the code has it. When the block of the tile has no
  \<^verbatim>\<open>designation_priority\<close> event, \<^verbatim>\<open>manage_safety\<close> changes nothing: the
  readiness outcome is applied inside the loop over those events only, so the tile is
  skipped whatever the readiness of its group.
\<close>

theorem manage_safety_no_overlay:
  assumes "\<forall>ev \<in> set (block_events (blocks w b)). ev = other_event"
    and "0 \<le> sint (cx local)" "sint (cx local) < 16" "0 \<le> sint (cy local)" "sint (cy local) < 16"
  shows "manage_safety pl w (Some b) local tile tile_above = Inr w"
proof -
  have "\<forall>ev \<in> set (block_events (blocks w b)).
          \<not> eligible (nat (sint (cx local))) (nat (sint (cy local))) ev"
    using assms(1) by (auto simp: eligible_def)
  then show ?thesis
    using assms(2-) by (simp add: manage_safety_def events_none split: option.splits)
qed

theorem manage_safety_no_overlay_witness:
  "GroupData_find (manager_groups ex_plugin) ex_D = Some [(ex_D, Some 2)]
   \<and> block_events (blocks ex_world 2) = [other_event]
   \<and> manage_safety ex_plugin ex_world (Some 2) (local_of ex_D) ex_D (coord_above ex_D) = Inr ex_world"
  using manage_safety_no_overlay [where w = ex_world and b = 2 and local = "local_of ex_D"
      and pl = ex_plugin and tile = ex_D and tile_above = "coord_above ex_D"]
  by (simp add: ex_defs GroupData_find_def local_of_def rem16_def)

text \<open>
  C2 as stated fails at tile \<open>D\<close> of the example: \<open>D\<close> is in a non-empty, ready
  group and its block has no priority overlay. The ready outcome would clear the
  tile's \<^verbatim>\<open>dig_marked\<close> and set the block's \<^verbatim>\<open>designated\<close>;
  \<^verbatim>\<open>manage_safety\<close> leaves both as they were.
\<close>

theorem manage_safety_no_overlay_counterexample:
  "GroupData_find (manager_groups ex_plugin) ex_D = Some [(ex_D, Some 2)]
   \<and> block_events (blocks ex_world 2) = [other_event]
   \<and> local_of ex_D = \<lparr>cx = 0, cy = 0, cz = 5\<rparr>
   \<and> map_sum id (\<lambda>w'. (occupancy (blocks w' 2) 0 0, designated (blocks w' 2)))
        (safety_outcome ex_plugin 2 0 0 ex_D [(ex_D, Some 2)] ex_world) = Inr (False, True)
   \<and> map_sum id (\<lambda>w'. (occupancy (blocks w' 2) 0 0, designated (blocks w' 2)))
        (manage_safety ex_plugin ex_world (Some 2) (local_of ex_D) ex_D (coord_above ex_D))
        = Inr (True, False)"
  by (simp add: ex_defs op_defs)

section \<open>The outcome for an eligible tile (C3)\<close>






section \<open>The unused argument (C9)\<close>

text \<open>
  C9. Two calls of \<^verbatim>\<open>manage_safety\<close> that differ in \<open>tile_above\<close> only have the
  same result: the same error, or the same state after the call.
\<close>

theorem manage_safety_ignores_tile_above:
  "manage_safety pl w block local tile a1 = manage_safety pl w block local tile a2"
  by (simp add: manage_safety_def)

theorem manage_safety_ignores_tile_above_witness:
  "manage_safety ex_plugin ex_world (Some 0) (local_of ex_A) ex_A (coord_above ex_A)
     = manage_safety ex_plugin ex_world (Some 0) (local_of ex_A) ex_A ex_D"
  by (rule manage_safety_ignores_tile_above)

section \<open>The handler of a started job (C4)\<close>

text \<open>
  C4, as the code has it. For a started job of kind Dig or DigChannel, with the plugin
  enabled in fortress mode on a valid map, \<^verbatim>\<open>onStart\<close> evaluates the job's own
  tile: \<^verbatim>\<open>manage_safety\<close> gets the block and the position of the job's tile, and
  the tile above only as the argument it never reads (any \<open>t\<close> gives the same).
\<close>

theorem onStart_evaluates_job_tile:
  assumes "enabled pl" "isFortressMode w" "IsValid w" "job_store w a = Some j"
    and "is_dig j \<or> is_channel j"
  shows "onStart pl w (Some a) =
           manage_safety pl w (getTileBlock w (pos j)) (local_of (pos j)) (pos j) t"
  using assms by (auto simp: onStart_def manage_safety_def)

theorem onStart_evaluates_job_tile_witness:
  "enabled ex_plugin \<and> isFortressMode ex_world \<and> IsValid ex_world
   \<and> job_store ex_world 7 = Some \<lparr>pos = ex_A, job_type = DigChannel\<rparr>
   \<and> onStart ex_plugin ex_world (Some 7) =
       manage_safety ex_plugin ex_world (Some 0) (local_of ex_A) ex_A ex_B"
  using onStart_evaluates_job_tile [where pl = ex_plugin and w = ex_world and a = 7
      and j = "\<lparr>pos = ex_A, job_type = DigChannel\<rparr>" and t = ex_B]
  by (simp add: ex_defs is_channel_def)

text \<open>
  C4 as stated fails at the job on \<open>A\<close> of the example, with \<open>B\<close> the tile above:
  \<^verbatim>\<open>onStart\<close> marks \<open>A\<close> unsafe, cancels the job and leaves \<open>B\<close> marked, where
  evaluating \<open>B\<close> clears the mark of \<open>B\<close> and touches neither \<open>A\<close> nor the job.
\<close>

theorem onStart_tile_above_counterexample:
  "job_store ex_world 7 = Some \<lparr>pos = ex_A, job_type = DigChannel\<rparr>
   \<and> coord_above ex_A = ex_B
   \<and> map_sum id (\<lambda>w'. (occupancy (blocks w' 0) 0 0, occupancy (blocks w' 1) 0 0, job_list w'))
        (onStart ex_plugin ex_world (Some 7)) = Inr (True, True, [])
   \<and> map_sum id (\<lambda>w'. (occupancy (blocks w' 0) 0 0, occupancy (blocks w' 1) 0 0, job_list w'))
        (manage_safety ex_plugin ex_world (getTileBlock ex_world ex_B) (local_of ex_B) ex_B
           (coord_above ex_B)) = Inr (False, False, [7])"
  by (simp add: ex_defs op_defs)

section \<open>Association lists as maps\<close>

lemma keys_Nil [simp]: "keys [] = {}" by (simp add: keys_def)

lemma map_of_None_keys: "map_of m k = None \<longleftrightarrow> k \<notin> keys m"
  by (simp add: keys_def map_of_eq_None_iff)

lemma keys_emplace [simp]: "keys (emplace k v m) = insert k (keys m)"
  by (auto simp: emplace_def map_of_None_keys) (auto simp: keys_def)

lemma distinct_emplace: "distinct (map fst m) \<Longrightarrow> distinct (map fst (emplace k v m))"
  by (auto simp: emplace_def map_of_None_keys keys_def)


lemma insert_range_snoc: "insert_range (src @ [kv]) dst = emplace (fst kv) (snd kv) (insert_range src dst)"
  by (simp add: insert_range_def)

lemma insert_range_Nil [simp]: "insert_range [] dst = dst"
  by (simp add: insert_range_def)

lemma keys_append [simp]: "keys (xs @ ys) = keys xs \<union> keys ys"
  by (simp add: keys_def image_Un)

lemma keys_single [simp]: "keys [kv] = {fst kv}"
  by (simp add: keys_def)

lemma keys_insert_range [simp]: "keys (insert_range src dst) = keys dst \<union> keys src"
proof (induction src rule: rev_induct)
  case Nil show ?case by simp
next
  case (snoc kv src)
  then show ?case by (auto simp: insert_range_snoc)
qed



lemma set_spot_emplace [simp]: "set (spot_emplace i fs) = insert i (set fs)"
  by (auto simp: spot_emplace_def set_insort_key)



lemma emplace_Nil [simp]: "emplace k v [] = [(k, v)]"
  by (simp add: emplace_def)


section \<open>The registry of dig jobs (C5)\<close>

lemma map_of_emplace:
  "map_of (emplace k v m) p = (case map_of m p of Some a \<Rightarrow> Some a | None \<Rightarrow> if p = k then Some v else None)"
proof (cases "map_of m k")
  case None
  then have "emplace k v m = m @ [(k, v)]" by (simp add: emplace_def)
  then show ?thesis by (cases "map_of m p") (simp_all add: map_add_def)
next
  case (Some b)
  then have "emplace k v m = m" by (simp add: emplace_def)
  with Some show ?thesis by (cases "map_of m p") auto
qed

lemma DigJobs_read_loop_find:
  assumes "\<forall>a \<in> set nodes. job_store w a \<noteq> None"
  shows "\<exists>js. DigJobs_read_loop w nodes acc = Inr js
     \<and> (\<forall>p. map_of js p = (case map_of acc p of Some a \<Rightarrow> Some a
                                | None \<Rightarrow> List.find (channel_job_at w p) nodes))
     \<and> (distinct (map fst acc) \<longrightarrow> distinct (map fst js))
     \<and> length js \<le> length acc + length nodes"
  using assms
proof (induction nodes arbitrary: acc)
  case Nil
  then show ?case by (simp split: option.splits)
next
  case (Cons node rest)
  from Cons.prems obtain j where j: "job_store w node = Some j" by auto
  have rest: "\<forall>a \<in> set rest. job_store w a \<noteq> None" using Cons.prems by simp
  show ?case
  proof (cases "job_type j = DigChannel")
    case True
    from Cons.IH [OF rest, of "emplace (pos j) node acc"]
    obtain js where js: "DigJobs_read_loop w rest (emplace (pos j) node acc) = Inr js"
      and m: "\<forall>p. map_of js p = (case map_of (emplace (pos j) node acc) p of Some a \<Rightarrow> Some a
                                | None \<Rightarrow> List.find (channel_job_at w p) rest)"
      and d: "distinct (map fst (emplace (pos j) node acc)) \<longrightarrow> distinct (map fst js)"
      and l: "length js \<le> length (emplace (pos j) node acc) + length rest"
      by (elim exE conjE)
    have 1: "DigJobs_read_loop w (node # rest) acc = Inr js"
      using j True js by (simp add: is_channel_def)
    have 2: "\<forall>p. map_of js p = (case map_of acc p of Some a \<Rightarrow> Some a
                                | None \<Rightarrow> List.find (channel_job_at w p) (node # rest))"
    proof
      fix p
      have c: "channel_job_at w (pos j) node" using j True by (simp add: channel_job_at_def)
      have n: "p \<noteq> pos j \<Longrightarrow> \<not> channel_job_at w p node" using j by (auto simp: channel_job_at_def)
      show "map_of js p = (case map_of acc p of Some a \<Rightarrow> Some a
                                | None \<Rightarrow> List.find (channel_job_at w p) (node # rest))"
      proof (cases "map_of acc p")
        case (Some a)
        then show ?thesis using m by (simp add: map_of_emplace)
      next
        case None
        show ?thesis
        proof (cases "p = pos j")
          case True
          then show ?thesis using m None c by (simp add: map_of_emplace)
        next
          case False
          then show ?thesis using m None n by (simp add: map_of_emplace)
        qed
      qed
    qed
    have 3: "distinct (map fst acc) \<longrightarrow> distinct (map fst js)"
      using d distinct_emplace [of acc "pos j" node] by simp
    have 4: "length js \<le> length acc + length (node # rest)"
      using l by (simp add: emplace_def split: if_splits)
    from 1 2 3 4 show ?thesis by - (rule exI [of _ js], intro conjI, assumption+)
  next
    case False
    from Cons.IH [OF rest, of acc]
    obtain js where js: "DigJobs_read_loop w rest acc = Inr js"
      and m: "\<forall>p. map_of js p = (case map_of acc p of Some a \<Rightarrow> Some a
                                | None \<Rightarrow> List.find (channel_job_at w p) rest)"
      and d: "distinct (map fst acc) \<longrightarrow> distinct (map fst js)"
      and l: "length js \<le> length acc + length rest"
      by (elim exE conjE)
    have 1: "DigJobs_read_loop w (node # rest) acc = Inr js"
      using j False js by (simp add: is_channel_def)
    have 2: "\<forall>p. map_of js p = (case map_of acc p of Some a \<Rightarrow> Some a
                                | None \<Rightarrow> List.find (channel_job_at w p) (node # rest))"
    proof
      fix p
      have n: "\<not> channel_job_at w p node" using j False by (simp add: channel_job_at_def)
      show "map_of js p = (case map_of acc p of Some a \<Rightarrow> Some a
                                | None \<Rightarrow> List.find (channel_job_at w p) (node # rest))"
        using m n by (cases "map_of acc p") simp_all
    qed
    have 4: "length js \<le> length acc + length (node # rest)"
      using l by simp
    from 1 2 d 4 show ?thesis by - (rule exI [of _ js], intro conjI, assumption+)
  qed
qed

lemma find_channel_job:
  "List.find (channel_job_at w p) nodes = Some a \<Longrightarrow>
   a \<in> set nodes \<and> (\<exists>j. job_store w a = Some j \<and> job_type j = DigChannel \<and> pos j = p)"
proof (induction nodes)
  case Nil
  then show ?case by simp
next
  case (Cons n ns)
  show ?case
  proof (cases "channel_job_at w p n")
    case True
    with Cons.prems have "a = n" by simp
    with True show ?thesis by (cases "job_store w n") (simp_all add: channel_job_at_def)
  next
    case False
    with Cons show ?thesis by simp
  qed
qed

lemma DigJobs_read_find:
  assumes "\<forall>a \<in> set (job_list w). job_store w a \<noteq> None"
  shows "\<exists>js. DigJobs_read w = Inr js \<and> distinct (map fst js)
     \<and> (\<forall>p. map_of js p = List.find (channel_job_at w p) (job_list w))"
  using DigJobs_read_loop_find [OF assms, of "[]"] unfolding DigJobs_read_def by auto

text \<open>
  C5, as the code has it. On a job list whose jobs are all live,
  \<^verbatim>\<open>DigJobs::read\<close> gives a registry with one entry per position, and the entry
  of a position is the first job of the list that is a \<^verbatim>\<open>DigChannel\<close> job on that
  position: every entry is a channel job of the list under its own position, every
  position of a channel job has an entry, and no job of another kind, plain dig jobs
  included, is entered.
\<close>

theorem DigJobs_read_channel_only:
  assumes live: "\<forall>a \<in> set (job_list w). job_store w a \<noteq> None"
  shows "\<exists>js. DigJobs_read w = Inr js
     \<and> distinct (map fst js)
     \<and> (\<forall>p. map_of js p = List.find (channel_job_at w p) (job_list w))
     \<and> (\<forall>p a. (p, a) \<in> set js \<longrightarrow>
           a \<in> set (job_list w) \<and> (\<exists>j. job_store w a = Some j \<and> job_type j = DigChannel \<and> pos j = p))
     \<and> (\<forall>a \<in> set (job_list w). \<forall>j. job_store w a = Some j \<and> job_type j = DigChannel \<longrightarrow>
           pos j \<in> fst ` set js)
     \<and> (\<forall>a \<in> set (job_list w). \<forall>j. job_store w a = Some j \<and> job_type j \<noteq> DigChannel \<longrightarrow>
           a \<notin> snd ` set js)"
proof -
  from DigJobs_read_find [OF live]
  obtain js where r: "DigJobs_read w = Inr js" and d: "distinct (map fst js)"
    and m: "\<forall>p. map_of js p = List.find (channel_job_at w p) (job_list w)"
    by (elim exE conjE)
  have only: "\<forall>p a. (p, a) \<in> set js \<longrightarrow>
           a \<in> set (job_list w) \<and> (\<exists>j. job_store w a = Some j \<and> job_type j = DigChannel \<and> pos j = p)"
  proof (intro allI impI)
    fix p a assume "(p, a) \<in> set js"
    with d have "map_of js p = Some a" by simp
    with m have "List.find (channel_job_at w p) (job_list w) = Some a" by simp
    then show "a \<in> set (job_list w) \<and> (\<exists>j. job_store w a = Some j \<and> job_type j = DigChannel \<and> pos j = p)"
      by (rule find_channel_job)
  qed
  have every: "\<forall>a \<in> set (job_list w). \<forall>j. job_store w a = Some j \<and> job_type j = DigChannel \<longrightarrow>
           pos j \<in> fst ` set js"
  proof (intro ballI allI impI)
    fix a j assume a: "a \<in> set (job_list w)" and j: "job_store w a = Some j \<and> job_type j = DigChannel"
    then have "channel_job_at w (pos j) a" by (simp add: channel_job_at_def)
    with a have "List.find (channel_job_at w (pos j)) (job_list w) \<noteq> None"
      by (auto simp: find_None_iff)
    with m have "map_of js (pos j) \<noteq> None" by simp
    then show "pos j \<in> fst ` set js" by (simp add: map_of_eq_None_iff)
  qed
  have none: "\<forall>a \<in> set (job_list w). \<forall>j. job_store w a = Some j \<and> job_type j \<noteq> DigChannel \<longrightarrow>
           a \<notin> snd ` set js"
  proof (intro ballI allI impI)
    fix a j assume j: "job_store w a = Some j \<and> job_type j \<noteq> DigChannel"
    show "a \<notin> snd ` set js"
    proof
      assume "a \<in> snd ` set js"
      then obtain p where "(p, a) \<in> set js" by auto
      with only have "\<exists>j. job_store w a = Some j \<and> job_type j = DigChannel \<and> pos j = p" by blast
      with j show False by auto
    qed
  qed
  from r d m only every none show ?thesis by - (rule exI [of _ js], intro conjI, assumption+)
qed

theorem DigJobs_read_channel_only_witness:
  "job_list ex_jobs_world = [4, 7, 8, 9, 10]
   \<and> DigJobs_read ex_jobs_world = Inr [(ex_A, 7), (ex_F, 9)]
   \<and> job_store ex_jobs_world 4 = Some \<lparr>pos = ex_E, job_type = Dig\<rparr>"
proof -
  have live: "\<forall>a \<in> set (job_list ex_jobs_world). job_store ex_jobs_world a \<noteq> None"
    by (simp add: ex_jobs_world_def)
  from DigJobs_read_channel_only [OF live]
  obtain js where "DigJobs_read ex_jobs_world = Inr js" by blast
  moreover have "DigJobs_read ex_jobs_world = Inr [(ex_A, 7), (ex_F, 9)]"
    by (simp add: DigJobs_read_def ex_jobs_world_def ex_world_def is_channel_def emplace_def
        ex_A_def ex_E_def ex_F_def)
  ultimately show ?thesis by (simp add: ex_jobs_world_def)
qed

text \<open>
  C5 as stated fails on a job list holding one plain dig job: the claim has the job
  kept under its position, and the registry comes out empty. The earlier
  \<^verbatim>\<open>find_dig_jobs\<close> enters that job, under its layer.
\<close>

theorem DigJobs_read_drops_dig_job:
  "job_list ex_dig_world = [4]
   \<and> job_store ex_dig_world 4 = Some \<lparr>pos = \<lparr>cx = 1, cy = 2, cz = 3\<rparr>, job_type = Dig\<rparr>
   \<and> DigJobs_read ex_dig_world = Inr []
   \<and> find_dig_jobs ex_dig_world [] = Inr [(3, 4)]"
  by (simp add: DigJobs_read_def find_dig_jobs_def ex_dig_world_def ex_world_def is_dig_def is_channel_def)

section \<open>Consistency of the tracker\<close>

lemma slots_Nil [simp]: "slots gm [] = {}" by (simp add: slots_def)

















section \<open>The merge loop of insert\<close>















section \<open>Merging on insert (C6)\<close>



section \<open>Scans cover the tiles they visit\<close>
















lemma for_each_id: "(\<And>a. a \<in> set as \<Longrightarrow> f a s = Inr s) \<Longrightarrow> for_each f as s = Inr s"
  by (induction as) simp_all

lemma for_each_Cons_id:
  "(\<And>s'. for_each f as s' = Inr s') \<Longrightarrow> for_each f (a # as) s = f a s"
  by (cases "f a s") simp_all

lemma foreach_tile_none:
  assumes "\<And>lx ly. designation (blocks w b) lx ly \<noteq> Channel"
  shows "foreach_tile w b z gd = Inr gd"
  unfolding foreach_tile_def
  by (rule for_each_id, rule for_each_id) (simp add: is_channel_designation_def assms)

lemma foreach_tile_origin:
  assumes "designation (blocks w b) = (\<lambda>x y. if x = 0 \<and> y = 0 then Channel else No)"
  shows "foreach_tile w b z gd = GroupData_add (tile_pos (blocks w b) 0 0 z) (Some b) gd"
proof -
  let ?cell = "\<lambda>local_x local_y gd'.
         if is_channel_designation (designation (blocks w b) local_x local_y)
         then GroupData_add (tile_pos (blocks w b) local_x local_y z) (Some b) gd'
         else Inr gd'"
  have split: "[0..<16] = 0 # [1..<16]" by (simp add: upt_rec)
  have idle: "\<And>lx ly s. lx \<noteq> 0 \<or> ly \<noteq> 0 \<Longrightarrow> ?cell lx ly s = Inr s"
    by (auto simp: assms is_channel_designation_def)
  have c00: "?cell 0 0 gd = GroupData_add (tile_pos (blocks w b) 0 0 z) (Some b) gd"
    by (simp add: assms is_channel_designation_def)
  have row_rest: "\<And>s. for_each (?cell 0) [1..<16] s = Inr s"
    by (rule for_each_id) (simp add: idle)
  have row0: "for_each (?cell 0) (0 # [1..<16]) gd = ?cell 0 0 gd"
    by (rule for_each_Cons_id) (rule row_rest)
  have rows: "\<And>s. for_each (\<lambda>lx. for_each (?cell lx) (0 # [1..<16])) [1..<16] s = Inr s"
    by (rule for_each_id, rule for_each_id) (simp add: idle)
  have all: "for_each (\<lambda>lx. for_each (?cell lx) (0 # [1..<16])) (0 # [1..<16]) gd
      = for_each (?cell 0) (0 # [1..<16]) gd"
    by (rule for_each_Cons_id) (rule rows)
  have "foreach_tile w b z gd = for_each (\<lambda>lx. for_each (?cell lx) (0 # [1..<16])) (0 # [1..<16]) gd"
    unfolding foreach_tile_def split ..
  also note all
  also note row0
  also note c00
  finally show ?thesis .
qed

section \<open>The partition after a rebuild (C7)\<close>



text \<open>
  C7 as stated fails for a rebuild after the map has changed: the static extents
  \<open>(2, 1, 6)\<close> of an earlier map are reused on the example world of extents
  \<open>(2, 1, 7)\<close>, so layer 6 is never scanned and its Channel-designated tile \<open>B\<close>
  is in no group after the rebuild.
\<close>

lemma foreach_block_stale: "foreach_block ex_world ex_stale_plugin
   = Inr (ex_stale_plugin\<lparr>manager_groups :=
        \<lparr>groups = [[(ex_D, Some 2)]], groups_map = (\<lambda>p. None)(ex_D \<mapsto> 0), free_spots = []\<rparr>\<rparr>)"
  by (simp add: foreach_block_def layers_def ex_stale_plugin_def ex_world_def upt_rec
      foreach_tile_none foreach_tile_origin ex_block0_def ex_block1_def ex_block2_def tile_pos_def
      ex_D_def GroupData_add_def GroupData_clear_def getNeighbours_def)


section \<open>What a rescan reads of the grid\<close>

lemma frame_prims:
  "removeJob a (with_size s w) = with_size s (removeJob a w)"
  "set_designation b x y d (with_size s w) = with_size s (set_designation b x y d w)"
  "set_dig_marked b x y v (with_size s w) = with_size s (set_dig_marked b x y v w)"
  "set_designated b (with_size s w) = with_size s (set_designated b w)"
  by (simp_all add: with_size_def removeJob_def set_designation_def set_dig_marked_def set_designated_def)

lemma frame_reads:
  "blocks (with_size s w) = blocks w" "getTileBlock (with_size s w) = getTileBlock w"
  "getBlock (with_size s w) = getBlock w" "job_store (with_size s w) = job_store w"
  "job_list (with_size s w) = job_list w" "isFortressMode (with_size s w) = isFortressMode w"
  "IsValid (with_size s w) = IsValid w" "getSize (with_size s w) = s"
  by (simp_all add: with_size_def)

lemma frame_cancelJob: "cancelJob jp (with_size s w) = map_sum id (with_size s) (cancelJob jp w)"
  by (auto simp: cancelJob_def frame_reads frame_prims Let_def split: option.splits)

lemma frame_cancel_job:
  "DigJobs_cancel_job jobs p (with_size s w) = map_sum id (with_size s) (DigJobs_cancel_job jobs p w)"
  by (simp add: DigJobs_cancel_job_def frame_cancelJob split: option.splits)

lemma frame_outcome:
  "safety_outcome pl b lx ly tile g (with_size s w)
     = map_sum id (with_size s) (safety_outcome pl b lx ly tile g w)"
  by (simp add: safety_outcome_def frame_cancel_job frame_prims)

lemma frame_events:
  "manage_safety_events pl b lx ly tile g evs (with_size s w)
     = map_sum id (with_size s) (manage_safety_events pl b lx ly tile g evs w)"
proof (induction evs arbitrary: w)
  case Nil
  then show ?case by simp
next
  case (Cons ev evs)
  show ?case
  proof (cases ev)
    case other_event
    then show ?thesis using Cons.IH by simp
  next
    case (designation_priority priority)
    show ?thesis
    proof (cases "priority lx ly < 6000")
      case False
      then show ?thesis using designation_priority Cons.IH by simp
    next
      case True
      show ?thesis
      proof (cases "safety_outcome pl b lx ly tile g w")
        case (Inl e)
        then show ?thesis using designation_priority True by (simp add: frame_outcome)
      next
        case (Inr w1)
        then show ?thesis using designation_priority True Cons.IH [of w1] by (simp add: frame_outcome)
      qed
    qed
  qed
qed

lemma frame_manage_safety:
  "manage_safety pl (with_size s w) block local tile ta
     = map_sum id (with_size s) (manage_safety pl w block local tile ta)"
  by (auto simp: manage_safety_def frame_events frame_reads split: option.splits)

lemma frame_manage_tile:
  "manage_tile pl zmax tile (with_size s w) = map_sum id (with_size s) (manage_tile pl zmax tile w)"
  by (auto simp: manage_tile_def frame_manage_safety frame_prims Let_def split: option.splits)

lemma frame_for_each:
  assumes "\<And>a w. f a (with_size s w) = map_sum id (with_size s) (f a w)"
  shows "for_each f as (with_size s w) = map_sum id (with_size s) (for_each f as w)"
proof (induction as arbitrary: w)
  case Nil
  then show ?case by simp
next
  case (Cons a as)
  show ?case
  proof (cases "f a w")
    case (Inl e)
    then show ?thesis by (simp add: assms)
  next
    case (Inr w1)
    then show ?thesis using Cons.IH [of w1] by (simp add: assms)
  qed
qed

lemma frame_foreach_tile: "foreach_tile (with_size s w) = foreach_tile w"
  by (rule ext, rule ext, rule ext) (simp add: foreach_tile_def frame_reads cong: if_cong)

lemma frame_DigJobs_read_loop:
  "DigJobs_read_loop (with_size s w) nodes acc = DigJobs_read_loop w nodes acc"
  by (induction nodes arbitrary: acc) (simp_all add: frame_reads cong: if_cong option.case_cong)

lemma frame_DigJobs_read: "DigJobs_read (with_size s w) = DigJobs_read w"
  by (simp add: DigJobs_read_def frame_DigJobs_read_loop frame_reads)

lemma frame_foreach_block:
  "fb_getMapSize pl \<Longrightarrow> foreach_block (with_size s w) pl = foreach_block w pl"
  by (simp add: foreach_block_def frame_foreach_tile frame_reads cong: if_cong option.case_cong)

lemma foreach_block_cache:
  assumes "foreach_block w pl = Inr pl'"
  shows "fb_getMapSize pl' \<and> fb_extents pl' = (if fb_getMapSize pl then fb_extents pl else getSize w)
     \<and> md_getMapSize pl' = md_getMapSize pl \<and> md_extents pl' = md_extents pl"
proof (cases "fb_getMapSize pl")
  case True
  with assms show ?thesis
    by (auto simp: foreach_block_def Let_def split: prod.splits if_splits sum.splits)
next
  case False
  with assms show ?thesis
    by (auto simp: foreach_block_def Let_def split: prod.splits if_splits sum.splits)
qed

lemma frame_read:
  "fb_getMapSize pl \<Longrightarrow> GroupData_read (with_size s w) pl = GroupData_read w pl"
  by (simp add: GroupData_read_def frame_foreach_block frame_DigJobs_read frame_reads
      cong: if_cong option.case_cong sum.case_cong)

lemma read_cache:
  assumes "GroupData_read w pl = Inr pl'"
  shows "fb_getMapSize pl' \<and> fb_extents pl' = (if fb_getMapSize pl then fb_extents pl else getSize w)
     \<and> md_getMapSize pl' = md_getMapSize pl \<and> md_extents pl' = md_extents pl"
proof -
  from assms obtain pl1 where fb: "foreach_block w pl = Inr pl1"
    by (cases "foreach_block w pl") (simp_all add: GroupData_read_def)
  from assms fb obtain jobs gd where "pl' = pl1\<lparr>manager_jobs := jobs, manager_groups := gd\<rparr>"
    by (auto simp: GroupData_read_def split: sum.splits)
  with foreach_block_cache [OF fb] show ?thesis by simp
qed

lemma frame_build:
  "fb_getMapSize pl \<Longrightarrow> build_groups (with_size s w) pl = build_groups w pl"
  by (simp add: build_groups_def frame_read)

lemma build_cache:
  assumes "build_groups w pl = Inr pl'"
  shows "fb_getMapSize pl' \<and> fb_extents pl' = (if fb_getMapSize pl then fb_extents pl else getSize w)
     \<and> md_getMapSize pl' = md_getMapSize pl \<and> md_extents pl' = md_extents pl"
  using read_cache [OF assms [unfolded build_groups_def]] by simp

lemma frame_tiles:
  "for_each (\<lambda>group. for_each (manage_tile pl zmax) group) gs (with_size s w)
     = map_sum id (with_size s) (for_each (\<lambda>group. for_each (manage_tile pl zmax) group) gs w)"
  by (rule frame_for_each, rule frame_for_each, rule frame_manage_tile)

lemma manage_designations_cache:
  assumes "manage_designations w pl = Inr (pl', w')"
  shows "(md_getMapSize pl \<longrightarrow> md_getMapSize pl' \<and> md_extents pl' = md_extents pl)
     \<and> (fb_getMapSize pl \<longrightarrow> fb_getMapSize pl' \<and> fb_extents pl' = fb_extents pl)
     \<and> (isFortressMode w \<and> IsValid w \<and> \<not> md_getMapSize pl \<and> \<not> fb_getMapSize pl \<longrightarrow>
          md_getMapSize pl' \<and> md_extents pl' = getSize w
          \<and> fb_getMapSize pl' \<and> fb_extents pl' = getSize w)"
proof (cases "isFortressMode w \<and> IsValid w")
  case False
  with assms have "pl' = pl" by (auto simp: manage_designations_def)
  with False show ?thesis by blast
next
  case True
  let ?pl1 = "if \<not> md_getMapSize pl then pl\<lparr>md_getMapSize := True, md_extents := getSize w\<rparr> else pl"
  from assms True have b: "build_groups w ?pl1 = Inr pl'"
    by (auto simp: manage_designations_def Let_def split: sum.splits)
  from build_cache [OF b] show ?thesis by auto
qed

lemma manage_designations_frame:
  assumes "md_getMapSize pl" "fb_getMapSize pl"
  shows "manage_designations (with_size s w) pl
     = map_sum id (\<lambda>r. (fst r, with_size s (snd r))) (manage_designations w pl)"
proof (cases "isFortressMode w \<and> IsValid w")
  case False
  then show ?thesis by (auto simp: manage_designations_def frame_reads)
next
  case True
  show ?thesis
  proof (cases "build_groups w pl")
    case (Inl e)
    then show ?thesis
      using True assms by (simp add: manage_designations_def frame_reads frame_build)
  next
    case (Inr pl2)
    let ?loop = "for_each (\<lambda>group. for_each (manage_tile pl2 (snd (snd (md_extents pl)))) group)
        (groups (manager_groups pl2))"
    have l: "?loop (with_size s w) = map_sum id (with_size s) (?loop w)"
      by (rule frame_tiles)
    show ?thesis
      using True assms Inr l
      by (cases "?loop w") (simp_all add: manage_designations_def frame_reads frame_build)
  qed
qed

section \<open>Extents are asked for once (C10)\<close>

text \<open>
  C10. \<^verbatim>\<open>manage_designations\<close> (the top-most-layer check) and
  \<^verbatim>\<open>foreach_block\<close> (the block enumeration) each keep the extents in statics
  behind a flag and ask \<^verbatim>\<open>Maps::getSize\<close> only while the flag is clear. Hence:
  once both flags are set, a rescan does the same whatever extents the grid reports,
  so it never asks again; a rescan leaves set extents as they are; and the first
  rescan, from clear flags in fortress mode on a valid map, stores the extents of the
  grid it runs on in both.
\<close>

theorem extents_queried_once:
  "(md_getMapSize pl \<and> fb_getMapSize pl \<longrightarrow>
      manage_designations (w\<lparr>getSize := s\<rparr>) pl
        = map_sum id (\<lambda>r. (fst r, (snd r)\<lparr>getSize := s\<rparr>)) (manage_designations w pl))
   \<and> (manage_designations w pl = Inr (pl', w') \<longrightarrow>
        (md_getMapSize pl \<longrightarrow> md_getMapSize pl' \<and> md_extents pl' = md_extents pl)
      \<and> (fb_getMapSize pl \<longrightarrow> fb_getMapSize pl' \<and> fb_extents pl' = fb_extents pl)
      \<and> (isFortressMode w \<and> IsValid w \<and> \<not> md_getMapSize pl \<and> \<not> fb_getMapSize pl \<longrightarrow>
            md_getMapSize pl' \<and> md_extents pl' = getSize w
            \<and> fb_getMapSize pl' \<and> fb_extents pl' = getSize w))"
proof (intro conjI impI)
  assume "md_getMapSize pl \<and> fb_getMapSize pl"
  then show "manage_designations (w\<lparr>getSize := s\<rparr>) pl
        = map_sum id (\<lambda>r. (fst r, (snd r)\<lparr>getSize := s\<rparr>)) (manage_designations w pl)"
    using manage_designations_frame [of pl s w] by (simp add: with_size_def)
next
  assume a: "manage_designations w pl = Inr (pl', w')"
  { assume "md_getMapSize pl"
    then show "md_getMapSize pl'" "md_extents pl' = md_extents pl"
      using manage_designations_cache [OF a] by simp_all }
  { assume "fb_getMapSize pl"
    then show "fb_getMapSize pl'" "fb_extents pl' = fb_extents pl"
      using manage_designations_cache [OF a] by simp_all }
  { assume "isFortressMode w \<and> IsValid w \<and> \<not> md_getMapSize pl \<and> \<not> fb_getMapSize pl"
    then show "md_getMapSize pl'" "md_extents pl' = getSize w"
      "fb_getMapSize pl'" "fb_extents pl' = getSize w"
      using manage_designations_cache [OF a] by simp_all }
qed

lemma read_stale:
  "GroupData_read ex_world ex_stale_plugin
     = Inr (ex_stale_plugin\<lparr>manager_jobs := [(ex_A, 7)],
         manager_groups := \<lparr>groups = [[(ex_D, Some 2)], [(ex_A, Some 0)]],
           groups_map = (\<lambda>p. None)(ex_D \<mapsto> 0, ex_A \<mapsto> 1), free_spots = []\<rparr>\<rparr>)"
proof -
  have j: "DigJobs_read ex_world = Inr [(ex_A, 7)]"
    by (simp add: DigJobs_read_def ex_world_def is_channel_def emplace_def)
  have ne: "ex_A \<noteq> ex_D" by (simp add: ex_A_def ex_D_def)
  have a: "GroupData_add ex_A (Some 0)
      \<lparr>groups = [[(ex_D, Some 2)]], groups_map = (\<lambda>p. None)(ex_D \<mapsto> 0), free_spots = []\<rparr>
    = Inr \<lparr>groups = [[(ex_D, Some 2)], [(ex_A, Some 0)]],
           groups_map = (\<lambda>p. None)(ex_D \<mapsto> 0, ex_A \<mapsto> 1), free_spots = []\<rparr>"
    by (simp add: GroupData_add_def getNeighbours_def ex_A_def ex_D_def emplace_def)
  show ?thesis
    unfolding GroupData_read_def foreach_block_stale j
    by (simp add: a ex_world_def is_channel_def)
qed

lemma rescan_stale:
  "manage_designations ex_world ex_stale_plugin
     = Inr (ex_stale_plugin\<lparr>manager_jobs := [(ex_A, 7)],
         manager_groups := \<lparr>groups = [[(ex_D, Some 2)], [(ex_A, Some 0)]],
           groups_map = (\<lambda>p. None)(ex_D \<mapsto> 0, ex_A \<mapsto> 1), free_spots = []\<rparr>\<rparr>,
        set_dig_marked 0 0 0 False (set_dig_marked 2 0 0 False ex_world))"
proof -
  have b: "build_groups ex_world ex_stale_plugin
     = Inr (ex_stale_plugin\<lparr>manager_jobs := [(ex_A, 7)],
         manager_groups := \<lparr>groups = [[(ex_D, Some 2)], [(ex_A, Some 0)]],
           groups_map = (\<lambda>p. None)(ex_D \<mapsto> 0, ex_A \<mapsto> 1), free_spots = []\<rparr>\<rparr>)"
    using read_stale by (simp add: build_groups_def ex_stale_plugin_def)
  have m: "md_getMapSize ex_stale_plugin" "md_extents ex_stale_plugin = (2, 1, 6)"
    by (simp_all add: ex_stale_plugin_def)
  have v: "isFortressMode ex_world \<and> IsValid ex_world" by (simp add: ex_world_def)
  have tD: "\<And>pl w. manage_tile pl 6 (ex_D, Some 2) w = Inr (set_dig_marked 2 0 0 False w)"
    by (simp add: manage_tile_def ex_D_def local_of_def rem16_def)
  have tA: "\<And>pl w. manage_tile pl 6 (ex_A, Some 0) w = Inr (set_dig_marked 0 0 0 False w)"
    by (simp add: manage_tile_def ex_A_def local_of_def rem16_def)
  show ?thesis
    unfolding manage_designations_def using v by (simp add: m b tD tA)
qed

lemma foreach_block_fresh:
  assumes "manager_groups pl = GroupData_clear" "\<not> fb_getMapSize pl"
  shows "foreach_block ex_world pl
   = Inr (pl\<lparr>fb_getMapSize := True, fb_extents := (2, 1, 7), manager_groups :=
        \<lparr>groups = [[(ex_B, Some 1)], [(ex_D, Some 2)]],
         groups_map = (\<lambda>p. None)(ex_B \<mapsto> 0, ex_D \<mapsto> 1), free_spots = []\<rparr>\<rparr>)"
  by (simp add: foreach_block_def layers_def assms ex_world_def upt_rec
      foreach_tile_none foreach_tile_origin ex_block0_def ex_block1_def ex_block2_def tile_pos_def
      ex_B_def ex_D_def GroupData_add_def GroupData_clear_def getNeighbours_def emplace_def)

lemma read_fresh:
  assumes "manager_groups pl = GroupData_clear" "\<not> fb_getMapSize pl"
  shows "GroupData_read ex_world pl
     = Inr (pl\<lparr>fb_getMapSize := True, fb_extents := (2, 1, 7),
         manager_groups := \<lparr>groups = [[(ex_B, Some 1)], [(ex_D, Some 2)], [(ex_A, Some 0)]],
           groups_map = (\<lambda>p. None)(ex_B \<mapsto> 0, ex_D \<mapsto> 1, ex_A \<mapsto> 2), free_spots = []\<rparr>,
         manager_jobs := [(ex_A, 7)]\<rparr>)"
proof -
  have j: "DigJobs_read ex_world = Inr [(ex_A, 7)]"
    by (simp add: DigJobs_read_def ex_world_def is_channel_def emplace_def)
  have a: "GroupData_add ex_A (Some 0)
      \<lparr>groups = [[(ex_B, Some 1)], [(ex_D, Some 2)]],
         groups_map = (\<lambda>p. None)(ex_B \<mapsto> 0, ex_D \<mapsto> 1), free_spots = []\<rparr>
    = Inr \<lparr>groups = [[(ex_B, Some 1)], [(ex_D, Some 2)], [(ex_A, Some 0)]],
           groups_map = (\<lambda>p. None)(ex_B \<mapsto> 0, ex_D \<mapsto> 1, ex_A \<mapsto> 2), free_spots = []\<rparr>"
    by (simp add: GroupData_add_def getNeighbours_def ex_A_def ex_B_def ex_D_def emplace_def)
  show ?thesis
    unfolding GroupData_read_def foreach_block_fresh [OF assms] j
    by (simp add: a ex_world_def is_channel_def del: One_nat_def)
qed

lemma manage_designations_ok:
  assumes "isFortressMode w \<and> IsValid w"
    and "build_groups w pl1 = Inr pl2"
    and "for_each (\<lambda>group. for_each (manage_tile pl2 (snd (snd (md_extents pl1)))) group)
           (groups (manager_groups pl2)) w = Inr w'"
    and "pl1 = (if \<not> md_getMapSize pl
                then pl\<lparr>md_getMapSize := True, md_extents := getSize w\<rparr> else pl)"
  shows "manage_designations w pl = Inr (pl2, w')"
  using assms(1-3) unfolding manage_designations_def Let_def assms(4) [symmetric] by simp

lemma rescan_fresh:
  "\<exists>pl' w'. manage_designations ex_world ex_fresh_plugin = Inr (pl', w')"
proof -
  let ?pl1 = "ex_fresh_plugin\<lparr>md_getMapSize := True, md_extents := (2, 1, 7)\<rparr>"
  have "GroupData_read ex_world (?pl1\<lparr>manager_groups := GroupData_clear\<rparr>)
     = Inr (?pl1\<lparr>manager_groups := GroupData_clear\<rparr>\<lparr>fb_getMapSize := True, fb_extents := (2, 1, 7),
         manager_groups := \<lparr>groups = [[(ex_B, Some 1)], [(ex_D, Some 2)], [(ex_A, Some 0)]],
           groups_map = (\<lambda>p. None)(ex_B \<mapsto> 0, ex_D \<mapsto> 1, ex_A \<mapsto> 2), free_spots = []\<rparr>,
         manager_jobs := [(ex_A, 7)]\<rparr>)"
    by (rule read_fresh) (simp_all add: ex_fresh_plugin_def)
  then have b: "build_groups ex_world ?pl1
     = Inr (?pl1\<lparr>fb_getMapSize := True, fb_extents := (2, 1, 7),
         manager_groups := \<lparr>groups = [[(ex_B, Some 1)], [(ex_D, Some 2)], [(ex_A, Some 0)]],
           groups_map = (\<lambda>p. None)(ex_B \<mapsto> 0, ex_D \<mapsto> 1, ex_A \<mapsto> 2), free_spots = []\<rparr>,
         manager_jobs := [(ex_A, 7)]\<rparr>)"
    by (simp add: build_groups_def)
  have v: "isFortressMode ex_world \<and> IsValid ex_world" "getSize ex_world = (2, 1, 7)"
    "\<not> md_getMapSize ex_fresh_plugin"
    by (simp_all add: ex_world_def ex_fresh_plugin_def)
  let ?pl2 = "?pl1\<lparr>fb_getMapSize := True, fb_extents := (2, 1, 7),
         manager_groups := \<lparr>groups = [[(ex_B, Some 1)], [(ex_D, Some 2)], [(ex_A, Some 0)]],
           groups_map = (\<lambda>p. None)(ex_B \<mapsto> 0, ex_D \<mapsto> 1, ex_A \<mapsto> 2), free_spots = []\<rparr>,
         manager_jobs := [(ex_A, 7)]\<rparr>"
  let ?loop = "for_each (\<lambda>group. for_each (manage_tile ?pl2 (snd (snd (md_extents ?pl1)))) group)
      (groups (manager_groups ?pl2)) ex_world"
  let ?w1 = "set_dig_marked 1 0 0 False ex_world"
  have g: "groups (manager_groups ?pl2) = [[(ex_B, Some 1)], [(ex_D, Some 2)], [(ex_A, Some 0)]]"
    by simp
  have z: "snd (snd (md_extents ?pl1)) = 7"
    by simp
  have tB: "manage_tile ?pl2 7 (ex_B, Some 1) ex_world = Inr ?w1"
    by (simp add: manage_tile_def ex_B_def local_of_def rem16_def Let_def)
  have tD: "manage_tile ?pl2 7 (ex_D, Some 2) ?w1 = Inr ?w1"
    by (simp add: manage_tile_def Let_def ex_fresh_plugin_def ex_defs op_defs)
  have "map_sum id (\<lambda>w'. ()) (manage_tile ?pl2 7 (ex_A, Some 0) ?w1) = Inr ()"
    by (simp add: manage_tile_def Let_def ex_fresh_plugin_def ex_defs op_defs)
  then obtain w' where tA: "manage_tile ?pl2 7 (ex_A, Some 0) ?w1 = Inr w'"
    by (cases "manage_tile ?pl2 7 (ex_A, Some 0) ?w1") auto
  have l: "?loop = Inr w'"
    unfolding g z for_each.simps tB sum.case tD tA ..
  have p1: "?pl1 = (if \<not> md_getMapSize ex_fresh_plugin
      then ex_fresh_plugin\<lparr>md_getMapSize := True, md_extents := getSize ex_world\<rparr>
      else ex_fresh_plugin)"
    using v by simp
  have "manage_designations ex_world ex_fresh_plugin = Inr (?pl2, w')"
    by (rule manage_designations_ok [OF v(1) b l p1])
  then show ?thesis by blast
qed

theorem extents_queried_once_witness:
  "\<not> md_getMapSize ex_fresh_plugin \<and> \<not> fb_getMapSize ex_fresh_plugin
   \<and> isFortressMode ex_world \<and> IsValid ex_world \<and> getSize ex_world = (2, 1, 7)
   \<and> (\<exists>pl' w'. manage_designations ex_world ex_fresh_plugin = Inr (pl', w')
         \<and> md_getMapSize pl' \<and> md_extents pl' = (2, 1, 7)
         \<and> fb_getMapSize pl' \<and> fb_extents pl' = (2, 1, 7))
   \<and> md_getMapSize ex_stale_plugin \<and> fb_getMapSize ex_stale_plugin
   \<and> md_extents ex_stale_plugin = (2, 1, 6) \<and> fb_extents ex_stale_plugin = (2, 1, 6)
   \<and> (\<exists>pl' w'. manage_designations ex_world ex_stale_plugin = Inr (pl', w')
         \<and> md_extents pl' = (2, 1, 6) \<and> fb_extents pl' = (2, 1, 6)
         \<and> \<not> occupancy (blocks w' 2) 0 0)
   \<and> manage_designations (ex_world\<lparr>getSize := (9, 9, 9)\<rparr>) ex_stale_plugin
       = map_sum id (\<lambda>r. (fst r, (snd r)\<lparr>getSize := (9, 9, 9)\<rparr>))
           (manage_designations ex_world ex_stale_plugin)"
proof -
  have ff: "\<not> md_getMapSize ex_fresh_plugin" "\<not> fb_getMapSize ex_fresh_plugin"
    by (simp_all add: ex_fresh_plugin_def)
  have wv: "isFortressMode ex_world" "IsValid ex_world" "getSize ex_world = (2, 1, 7)"
    by (simp_all add: ex_world_def)
  have sf: "md_getMapSize ex_stale_plugin" "fb_getMapSize ex_stale_plugin"
    "md_extents ex_stale_plugin = (2, 1, 6)" "fb_extents ex_stale_plugin = (2, 1, 6)"
    by (simp_all add: ex_stale_plugin_def)
  from rescan_fresh obtain p1 w1
    where r1: "manage_designations ex_world ex_fresh_plugin = Inr (p1, w1)" by blast
  have c1: "md_getMapSize p1 \<and> md_extents p1 = (2, 1, 7) \<and> fb_getMapSize p1 \<and> fb_extents p1 = (2, 1, 7)"
    using extents_queried_once [where pl = ex_fresh_plugin and w = ex_world and s = "(9, 9, 9)" and pl' = p1 and w' = w1] r1 ff wv by simp
  have 1: "\<exists>pl' w'. manage_designations ex_world ex_fresh_plugin = Inr (pl', w')
         \<and> md_getMapSize pl' \<and> md_extents pl' = (2, 1, 7)
         \<and> fb_getMapSize pl' \<and> fb_extents pl' = (2, 1, 7)"
    using r1 c1 by blast
  let ?p2 = "ex_stale_plugin\<lparr>manager_jobs := [(ex_A, 7)],
         manager_groups := \<lparr>groups = [[(ex_D, Some 2)], [(ex_A, Some 0)]],
           groups_map = (\<lambda>p. None)(ex_D \<mapsto> 0, ex_A \<mapsto> 1), free_spots = []\<rparr>\<rparr>"
  let ?w2 = "set_dig_marked 0 0 0 False (set_dig_marked 2 0 0 False ex_world)"
  have r2: "manage_designations ex_world ex_stale_plugin = Inr (?p2, ?w2)"
    by (rule rescan_stale)
  have c2: "md_extents ?p2 = (2, 1, 6) \<and> fb_extents ?p2 = (2, 1, 6)"
    using extents_queried_once [where pl = ex_stale_plugin and w = ex_world and s = "(9, 9, 9)" and pl' = ?p2 and w' = ?w2] r2 sf by simp
  have o2: "\<not> occupancy (blocks ?w2 2) 0 0"
    by (simp add: set_dig_marked_def upd2_def)
  have 2: "\<exists>pl' w'. manage_designations ex_world ex_stale_plugin = Inr (pl', w')
         \<and> md_extents pl' = (2, 1, 6) \<and> fb_extents pl' = (2, 1, 6)
         \<and> \<not> occupancy (blocks w' 2) 0 0"
    using r2 c2 o2 by blast
  have 3: "manage_designations (ex_world\<lparr>getSize := (9, 9, 9)\<rparr>) ex_stale_plugin
       = map_sum id (\<lambda>r. (fst r, (snd r)\<lparr>getSize := (9, 9, 9)\<rparr>))
           (manage_designations ex_world ex_stale_plugin)"
    using extents_queried_once [where pl = ex_stale_plugin and w = ex_world and s = "(9, 9, 9)" and pl' = ?p2 and w' = ?w2] sf by blast
  show ?thesis
    using ff wv 1 sf 2 3 by - (intro conjI, assumption+)
qed

end
